theory Spec2Isabelle
  imports Main "HOL-Library.Multiset"
begin

section \<open>The training-request approval workflow\<close>

text \<open>
  A shallow embedding of \<^verbatim>\<open>backend/app/routes/training_requests.py\<close> and of the table
  that \<^verbatim>\<open>backend/create_training_requests_table.py\<close> creates. The four route handlers
  become functions over an explicit database state; every \<^verbatim>\<open>raise\<close> is an \<open>Inl\<close> result
  paired with the state the call leaves behind.
\<close>

subsection \<open>Rows\<close>

type_synonym timestamp = int

text \<open>
  \<^verbatim>\<open>training_requests\<close>, column by column as in the \<^verbatim>\<open>CREATE TABLE\<close> statement. The
  column \<^verbatim>\<open>id\<close> is called \<open>req_id\<close> here. The two nullable columns that only a
  response fills are options; \<^verbatim>\<open>request_date\<close> is filled at every insert the handlers
  make, so it is modelled as always present.
\<close>

record training_request =
  req_id :: int
  training_id :: int
  employee_empid :: string
  manager_empid :: string
  request_date :: timestamp
  status :: string
  manager_notes :: "string option"
  response_date :: "timestamp option"

text \<open>
  The models \<^verbatim>\<open>TrainingDetail\<close>, \<^verbatim>\<open>User\<close>, \<^verbatim>\<open>ManagerEmployee\<close> and
  \<^verbatim>\<open>TrainingAssignment\<close> are declared in \<^verbatim>\<open>app.models\<close>; the records below hold the
  columns that the handlers read or write.
\<close>

record training_detail =
  td_id :: int

record user =
  username :: string

record manager_employee =
  me_employee_empid :: string
  me_manager_empid :: string
  employee_name :: string

record training_assignment =
  ta_training_id :: int
  ta_employee_empid :: string
  ta_manager_empid :: string

text \<open>
  The database: one list of rows per table, in insertion order, and the sequence behind
  the \<^verbatim>\<open>SERIAL\<close> column \<^verbatim>\<open>training_requests.id\<close>.
\<close>

record database =
  training_details :: "training_detail list"
  users :: "user list"
  manager_employees :: "manager_employee list"
  training_requests :: "training_request list"
  training_assignments :: "training_assignment list"
  next_id :: int

subsection \<open>Errors and query results\<close>

datatype http_status =
  HTTP_400_BAD_REQUEST
| HTTP_401_UNAUTHORIZED
| HTTP_403_FORBIDDEN
| HTTP_404_NOT_FOUND

text \<open>
  \<open>HTTPException\<close> is what the handlers raise themselves. The others are raised by the
  calls they make: \<^verbatim>\<open>scalar_one_or_none\<close> and \<^verbatim>\<open>scalar_one\<close> on a result of the wrong
  size, an \<^verbatim>\<open>INSERT\<close> that breaks a constraint of the table, and \<^verbatim>\<open>.username\<close> on a
  relationship that loaded as \<^verbatim>\<open>None\<close>.
\<close>

datatype error =
  HTTPException http_status string
| MultipleResultsFound
| NoResultFound
| IntegrityError
| AttributeError

fun scalar_one_or_none :: "'a list \<Rightarrow> error + 'a option" where
  "scalar_one_or_none [] = Inr None"
| "scalar_one_or_none [x] = Inr (Some x)"
| "scalar_one_or_none (x # y # zs) = Inl MultipleResultsFound"

fun scalar_one :: "'a list \<Rightarrow> error + 'a" where
  "scalar_one [] = Inl NoResultFound"
| "scalar_one [x] = Inr x"
| "scalar_one (x # y # zs) = Inl MultipleResultsFound"

fun first_row :: "'a list \<Rightarrow> 'a option" where
  "first_row [] = None"
| "first_row (x # xs) = Some x"

text \<open>
  \<^verbatim>\<open>ORDER BY request_date DESC\<close>. SQL leaves the order of rows with equal keys open; the
  model keeps them in table order. The theorems below only use that the result is a
  permutation in descending key order.
\<close>

definition order_by_desc :: "('a \<Rightarrow> timestamp) \<Rightarrow> 'a list \<Rightarrow> 'a list" where
  "order_by_desc k xs = sort_key (\<lambda>x. - k x) xs"

text \<open>
  \<^verbatim>\<open>current_user.get("username")\<close> is \<open>None\<close> when the key is absent, and
  \<^verbatim>\<open>not current_username\<close> also holds for the empty string: every handler starts with
  these two cases, both raising the error below.
\<close>

definition credentials_error :: error where
  "credentials_error = HTTPException HTTP_401_UNAUTHORIZED ''Could not validate credentials''"

subsection \<open>Relationships and the response\<close>

text \<open>
  \<^verbatim>\<open>selectinload(TrainingRequest.training)\<close> and \<^verbatim>\<open>selectinload(TrainingRequest.employee)\<close>:
  the row together with the rows its two foreign keys point at, \<open>None\<close> where there is
  none.
\<close>

record loaded_request =
  columns :: training_request
  training_rel :: "training_detail option"
  employee_rel :: "user option"

definition selectinload :: "database \<Rightarrow> training_request \<Rightarrow> loaded_request" where
  "selectinload db r =
     \<lparr>columns = r,
      training_rel = find (\<lambda>t. td_id t = training_id r) (training_details db),
      employee_rel = find (\<lambda>u. username u = employee_empid r) (users db)\<rparr>"

record employee_dict =
  dict_username :: string
  dict_name :: string

record training_request_response =
  resp_id :: int
  resp_training_id :: int
  resp_employee_empid :: string
  resp_manager_empid :: string
  resp_request_date :: timestamp
  resp_status :: string
  resp_manager_notes :: "string option"
  resp_response_date :: "timestamp option"
  resp_training :: "training_detail option"
  resp_employee :: employee_dict

text \<open>
  The \<^verbatim>\<open>request_dict\<close> that \<^verbatim>\<open>get_pending_requests\<close> and \<^verbatim>\<open>respond_to_request\<close> both
  build from a joined row: the request's columns, its training, and the employee's login
  with the name taken from the \<^verbatim>\<open>ManagerEmployee\<close> column of the join.
\<close>

definition request_dict :: "loaded_request \<Rightarrow> string \<Rightarrow> error + training_request_response" where
  "request_dict training_request name =
     (case employee_rel training_request of
        None \<Rightarrow> Inl AttributeError
      | Some u \<Rightarrow>
          Inr \<lparr>resp_id = req_id (columns training_request),
               resp_training_id = training_id (columns training_request),
               resp_employee_empid = employee_empid (columns training_request),
               resp_manager_empid = manager_empid (columns training_request),
               resp_request_date = request_date (columns training_request),
               resp_status = status (columns training_request),
               resp_manager_notes = manager_notes (columns training_request),
               resp_response_date = response_date (columns training_request),
               resp_training = training_rel training_request,
               resp_employee = \<lparr>dict_username = username u, dict_name = name\<rparr>\<rparr>)"

text \<open>The eight columns of the request that a response carries, read back as a row.\<close>

definition response_columns :: "training_request_response \<Rightarrow> training_request" where
  "response_columns resp =
     \<lparr>req_id = resp_id resp, training_id = resp_training_id resp,
      employee_empid = resp_employee_empid resp, manager_empid = resp_manager_empid resp,
      request_date = resp_request_date resp, status = resp_status resp,
      manager_notes = resp_manager_notes resp, response_date = resp_response_date resp\<rparr>"

text \<open>
  \<^verbatim>\<open>select(TrainingRequest, ManagerEmployee.employee_name).join(ManagerEmployee,
  TrainingRequest.employee_empid == ManagerEmployee.employee_empid)\<close>: an inner join, one
  row for every pair of a request and a directory row of its employee.
\<close>

definition join_manager_employee :: "database \<Rightarrow> (training_request \<times> string) list" where
  "join_manager_employee db =
     [(r, employee_name m). r \<leftarrow> training_requests db, m \<leftarrow> manager_employees db,
                            employee_empid r = me_employee_empid m]"

subsection \<open>Writes\<close>

text \<open>
  \<^verbatim>\<open>db.add(new_request); await db.commit()\<close>: the \<^verbatim>\<open>INSERT\<close> under the constraints of
  the table (\<^verbatim>\<open>id SERIAL PRIMARY KEY\<close> and the three \<^verbatim>\<open>FOREIGN KEY\<close> clauses). The
  sequence has moved on whether the insert succeeds or not.
\<close>

definition insert_training_request :: "database \<Rightarrow> training_request \<Rightarrow> error + database" where
  "insert_training_request db r =
     (if req_id r \<in> req_id ` set (training_requests db)
         \<or> training_id r \<notin> td_id ` set (training_details db)
         \<or> employee_empid r \<notin> username ` set (users db)
         \<or> manager_empid r \<notin> username ` set (users db)
      then Inl IntegrityError
      else Inr (db\<lparr>training_requests := training_requests db @ [r],
                   next_id := next_id db + 1\<rparr>))"

text \<open>
  The \<^verbatim>\<open>UPDATE training_requests SET status, manager_notes, response_date WHERE id = ...\<close>
  that the commit in \<^verbatim>\<open>respond_to_request\<close> flushes.
\<close>

definition update_training_request ::
  "database \<Rightarrow> int \<Rightarrow> string \<Rightarrow> string option \<Rightarrow> timestamp \<Rightarrow> database" where
  "update_training_request db i st notes now =
     db\<lparr>training_requests :=
          map (\<lambda>r. if req_id r = i
                    then r\<lparr>status := st, manager_notes := notes, response_date := Some now\<rparr>
                    else r)
              (training_requests db)\<rparr>"

definition add_assignment :: "database \<Rightarrow> training_assignment \<Rightarrow> database" where
  "add_assignment db a = db\<lparr>training_assignments := training_assignments db @ [a]\<rparr>"

subsection \<open>The handlers\<close>

definition create_training_request ::
  "database \<Rightarrow> string option \<Rightarrow> int \<Rightarrow> timestamp \<Rightarrow> (error + loaded_request) \<times> database" where
  "create_training_request db current_user tid now =
     (case current_user of
        None \<Rightarrow> (Inl credentials_error, db)
      | Some current_username \<Rightarrow>
     if current_username = [] then (Inl credentials_error, db)
     else
     (case scalar_one_or_none (filter (\<lambda>t. td_id t = tid) (training_details db)) of
        Inl e \<Rightarrow> (Inl e, db)
      | Inr None \<Rightarrow> (Inl (HTTPException HTTP_404_NOT_FOUND ''Training not found''), db)
      | Inr (Some training) \<Rightarrow>
     (case scalar_one_or_none
             (filter (\<lambda>m. me_employee_empid m = current_username) (manager_employees db)) of
        Inl e \<Rightarrow> (Inl e, db)
      | Inr None \<Rightarrow>
          (Inl (HTTPException HTTP_404_NOT_FOUND ''No manager found for this employee''), db)
      | Inr (Some manager_relation) \<Rightarrow>
     (case scalar_one_or_none
             (filter (\<lambda>r. training_id r = tid \<and> employee_empid r = current_username)
                     (training_requests db)) of
        Inl e \<Rightarrow> (Inl e, db)
      | Inr (Some existing_request) \<Rightarrow>
          (Inl (HTTPException HTTP_400_BAD_REQUEST ''You have already requested this training''),
           db)
      | Inr None \<Rightarrow>
          (let new_request =
                 \<lparr>req_id = next_id db, training_id = tid, employee_empid = current_username,
                  manager_empid = me_manager_empid manager_relation, request_date = now,
                  status = ''pending'', manager_notes = None, response_date = None\<rparr>
           in case insert_training_request db new_request of
                Inl e \<Rightarrow> (Inl e, db\<lparr>next_id := next_id db + 1\<rparr>)
              | Inr db' \<Rightarrow>
                  (case scalar_one
                          (filter (\<lambda>r. req_id r = req_id new_request) (training_requests db')) of
                     Inl e \<Rightarrow> (Inl e, db')
                   | Inr complete_request \<Rightarrow> (Inr (selectinload db' complete_request), db')))))))"

definition get_my_training_requests ::
  "database \<Rightarrow> string option \<Rightarrow> error + loaded_request list" where
  "get_my_training_requests db current_user =
     (case current_user of
        None \<Rightarrow> Inl credentials_error
      | Some current_username \<Rightarrow>
          if current_username = [] then Inl credentials_error
          else Inr (map (selectinload db)
                        (order_by_desc request_date
                           (filter (\<lambda>r. employee_empid r = current_username)
                                   (training_requests db)))))"

text \<open>The query of \<^verbatim>\<open>get_pending_requests\<close>: join, \<^verbatim>\<open>WHERE\<close>, \<^verbatim>\<open>ORDER BY\<close>.\<close>

definition pending_rows :: "database \<Rightarrow> string \<Rightarrow> (training_request \<times> string) list" where
  "pending_rows db current_username =
     order_by_desc (\<lambda>row. request_date (fst row))
       (filter (\<lambda>row. manager_empid (fst row) = current_username \<and> status (fst row) = ''pending'')
               (join_manager_employee db))"

text \<open>The \<^verbatim>\<open>for row in rows\<close> loop; the first row that raises ends the call.\<close>

fun to_responses ::
  "database \<Rightarrow> (training_request \<times> string) list \<Rightarrow> error + training_request_response list" where
  "to_responses db [] = Inr []"
| "to_responses db (row # rows) =
     (case request_dict (selectinload db (fst row)) (snd row) of
        Inl e \<Rightarrow> Inl e
      | Inr resp \<Rightarrow>
          (case to_responses db rows of
             Inl e \<Rightarrow> Inl e
           | Inr requests \<Rightarrow> Inr (resp # requests)))"

definition get_pending_requests ::
  "database \<Rightarrow> string option \<Rightarrow> error + training_request_response list" where
  "get_pending_requests db current_user =
     (case current_user of
        None \<Rightarrow> Inl credentials_error
      | Some current_username \<Rightarrow>
          if current_username = [] then Inl credentials_error
          else to_responses db (pending_rows db current_username))"

text \<open>
  \<^verbatim>\<open>response_data\<close> is a \<^verbatim>\<open>TrainingRequestUpdate\<close>, declared in \<^verbatim>\<open>app.schemas\<close>; the
  handler reads its \<^verbatim>\<open>status\<close>, a string, and its \<^verbatim>\<open>manager_notes\<close>.
\<close>

record training_request_update =
  upd_status :: string
  upd_manager_notes :: "string option"

definition respond_to_request ::
  "database \<Rightarrow> int \<Rightarrow> training_request_update \<Rightarrow> string option \<Rightarrow> timestamp
     \<Rightarrow> (error + training_request_response) \<times> database" where
  "respond_to_request db request_id response_data current_user now =
     (case current_user of
        None \<Rightarrow> (Inl credentials_error, db)
      | Some current_username \<Rightarrow>
     if current_username = [] then (Inl credentials_error, db)
     else
     (case scalar_one_or_none (filter (\<lambda>r. req_id r = request_id) (training_requests db)) of
        Inl e \<Rightarrow> (Inl e, db)
      | Inr None \<Rightarrow> (Inl (HTTPException HTTP_404_NOT_FOUND ''Training request not found''), db)
      | Inr (Some request) \<Rightarrow>
     if manager_empid request \<noteq> current_username
     then (Inl (HTTPException HTTP_403_FORBIDDEN
                  ''You are not authorized to respond to this request''), db)
     else if status request \<noteq> ''pending''
     then (Inl (HTTPException HTTP_400_BAD_REQUEST
                  ''This request has already been responded to''), db)
     else
       (let db1 = update_training_request db (req_id request) (upd_status response_data)
                    (upd_manager_notes response_data) now;
            db2 = (if upd_status response_data = ''approved''
                   then add_assignment db1
                          \<lparr>ta_training_id = training_id request,
                           ta_employee_empid = employee_empid request,
                           ta_manager_empid = manager_empid request\<rparr>
                   else db1)
        in case first_row (filter (\<lambda>row. req_id (fst row) = req_id request)
                                  (join_manager_employee db2)) of
             None \<Rightarrow>
               (Inl (HTTPException HTTP_404_NOT_FOUND
                       ''Training request not found after update''), db2)
           | Some row \<Rightarrow>
               (case request_dict (selectinload db2 (fst row)) (snd row) of
                  Inl e \<Rightarrow> (Inl e, db2)
                | Inr resp \<Rightarrow> (Inr resp, db2)))))"

subsection \<open>The states of the workflow\<close>

text \<open>
  The states that the workflow reaches from an empty request table: by calls of the two
  handlers that write, where every response submits \<^verbatim>\<open>'approved'\<close> or \<^verbatim>\<open>'rejected'\<close>,
  and by changes that others make to the catalog, the users and the directory. The
  listing handlers write nothing.
\<close>

inductive workflow_state :: "database \<Rightarrow> bool" where
  initial: "training_requests db = [] \<Longrightarrow> workflow_state db"
| created: "workflow_state db \<Longrightarrow>
     workflow_state (snd (create_training_request db current_user tid now))"
| responded: "workflow_state db \<Longrightarrow>
     upd_status response_data = ''approved'' \<or> upd_status response_data = ''rejected'' \<Longrightarrow>
     workflow_state (snd (respond_to_request db request_id response_data current_user now))"
| external: "workflow_state db \<Longrightarrow>
     workflow_state (db\<lparr>training_details := tds, users := us, manager_employees := ms\<rparr>)"

subsection \<open>Example states\<close>

text \<open>
  The states of the scenario: training 5 is on offer, employee \<open>e1\<close> reports to \<open>m1\<close>,
  and \<open>e2\<close> and \<open>m2\<close> are two more users. In \<open>scenario_pending\<close> the request of
  \<open>e1\<close> is stored; in \<open>scenario_left\<close> the directory row of \<open>e1\<close> has since been
  removed; in \<open>scenario_moved\<close> a second directory row for \<open>e1\<close> has been added.
\<close>

definition scenario_empty :: database where
  "scenario_empty =
     \<lparr>training_details = [\<lparr>td_id = 5\<rparr>],
      users = [\<lparr>username = ''e1''\<rparr>, \<lparr>username = ''m1''\<rparr>,
               \<lparr>username = ''e2''\<rparr>, \<lparr>username = ''m2''\<rparr>],
      manager_employees =
        [\<lparr>me_employee_empid = ''e1'', me_manager_empid = ''m1'', employee_name = ''Ann''\<rparr>],
      training_requests = [],
      training_assignments = [],
      next_id = 1\<rparr>"

definition request_e1 :: training_request where
  "request_e1 =
     \<lparr>req_id = 1, training_id = 5, employee_empid = ''e1'', manager_empid = ''m1'',
      request_date = 100, status = ''pending'', manager_notes = None, response_date = None\<rparr>"

definition scenario_pending :: database where
  "scenario_pending = scenario_empty\<lparr>training_requests := [request_e1], next_id := 2\<rparr>"

definition scenario_left :: database where
  "scenario_left = scenario_pending\<lparr>manager_employees := []\<rparr>"

definition scenario_moved :: database where
  "scenario_moved =
     scenario_pending\<lparr>manager_employees :=
       [\<lparr>me_employee_empid = ''e1'', me_manager_empid = ''m1'', employee_name = ''Ann''\<rparr>,
        \<lparr>me_employee_empid = ''e1'', me_manager_empid = ''m2'', employee_name = ''Ann B''\<rparr>]\<rparr>"

text \<open>
  A state with three stored requests: two of \<open>e1\<close>, the later one already approved, and
  one of \<open>e2\<close>, who reports to \<open>m1\<close> as well.
\<close>

definition request_e1_later :: training_request where
  "request_e1_later =
     \<lparr>req_id = 2, training_id = 6, employee_empid = ''e1'', manager_empid = ''m1'',
      request_date = 250, status = ''approved'', manager_notes = Some ''ok'',
      response_date = Some 300\<rparr>"

definition request_e2 :: training_request where
  "request_e2 =
     \<lparr>req_id = 3, training_id = 5, employee_empid = ''e2'', manager_empid = ''m1'',
      request_date = 200, status = ''pending'', manager_notes = None, response_date = None\<rparr>"

definition scenario_listing :: database where
  "scenario_listing =
     scenario_empty\<lparr>training_details := [\<lparr>td_id = 5\<rparr>, \<lparr>td_id = 6\<rparr>],
       manager_employees :=
         [\<lparr>me_employee_empid = ''e1'', me_manager_empid = ''m1'', employee_name = ''Ann''\<rparr>,
          \<lparr>me_employee_empid = ''e2'', me_manager_empid = ''m1'', employee_name = ''Bob''\<rparr>],
       training_requests := [request_e1, request_e1_later, request_e2],
       next_id := 4\<rparr>"

section \<open>Properties of the queries\<close>

lemmas scenario_defs = scenario_listing_def scenario_left_def scenario_moved_def
  scenario_pending_def scenario_empty_def request_e1_def request_e1_later_def request_e2_def

lemma scalar_one_or_none_Nil_iff: "scalar_one_or_none xs = Inr None \<longleftrightarrow> xs = []"
  by (cases xs rule: scalar_one_or_none.cases) simp_all

lemma scalar_one_or_none_Some_iff: "scalar_one_or_none xs = Inr (Some x) \<longleftrightarrow> xs = [x]"
  by (cases xs rule: scalar_one_or_none.cases) auto

text \<open>Under a key that is unique in the table, the query for a stored row's key finds that row.\<close>

lemma filter_key_single:
  "distinct (map f xs) \<Longrightarrow> x \<in> set xs \<Longrightarrow> filter (\<lambda>y. f y = f x) xs = [x]"
proof (induction xs)
  case Nil
  then show ?case by simp
next
  case (Cons a xs)
  show ?case
  proof (cases "a = x")
    case True
    with Cons.prems have "f x \<notin> f ` set xs" by simp
    then have "\<forall>y\<in>set xs. f y \<noteq> f x" by (metis imageI)
    then have "filter (\<lambda>y. f y = f x) xs = []" by (simp add: filter_empty_conv)
    with True show ?thesis by simp
  next
    case False
    with Cons.prems have "x \<in> set xs" "f a \<noteq> f x" by auto
    with Cons show ?thesis by simp
  qed
qed

lemma mset_order_by_desc: "mset (order_by_desc k xs) = mset xs"
  by (simp add: order_by_desc_def)

lemma set_order_by_desc: "set (order_by_desc k xs) = set xs"
  by (simp add: order_by_desc_def)

lemma sorted_order_by_desc: "sorted_wrt (\<lambda>a b. k b \<le> k a) (order_by_desc k xs)"
proof -
  have "sorted (map (\<lambda>x. - k x) (order_by_desc k xs))"
    unfolding order_by_desc_def by (rule sorted_sort_key)
  then show ?thesis by (simp add: sorted_map)
qed

section \<open>Creating a request\<close>

lemma insert_training_request_Inr:
  assumes "insert_training_request db r = Inr db'"
  shows "db' = db\<lparr>training_requests := training_requests db @ [r], next_id := next_id db + 1\<rparr>"
    and "req_id r \<notin> req_id ` set (training_requests db)"
    and "employee_empid r \<in> username ` set (users db)"
    and "manager_empid r \<in> username ` set (users db)"
  using assms by (auto simp: insert_training_request_def split: if_splits)

lemma filter_new_id:
  assumes "req_id r \<notin> req_id ` set rs"
  shows "filter (\<lambda>x. req_id x = req_id r) (rs @ [r]) = [r]"
proof -
  from assms have "\<forall>x\<in>set rs. req_id x \<noteq> req_id r" by (metis imageI)
  then have "filter (\<lambda>x. req_id x = req_id r) rs = []" by (simp add: filter_empty_conv)
  then show ?thesis by simp
qed

text \<open>What a successful call went through: each of the three lookups, then the insert.\<close>

lemma create_success:
  assumes "create_training_request db current_user tid now = (Inr created, db')"
  obtains u t m where "current_user = Some u" and "u \<noteq> []"
    and "filter (\<lambda>t. td_id t = tid) (training_details db) = [t]"
    and "filter (\<lambda>m. me_employee_empid m = u) (manager_employees db) = [m]"
    and "filter (\<lambda>r. training_id r = tid \<and> employee_empid r = u) (training_requests db) = []"
    and "insert_training_request db
           \<lparr>req_id = next_id db, training_id = tid, employee_empid = u,
            manager_empid = me_manager_empid m, request_date = now,
            status = ''pending'', manager_notes = None, response_date = None\<rparr> = Inr db'"
    and "created = selectinload db'
           \<lparr>req_id = next_id db, training_id = tid, employee_empid = u,
            manager_empid = me_manager_empid m, request_date = now,
            status = ''pending'', manager_notes = None, response_date = None\<rparr>"
proof -
  from assms obtain u where u: "current_user = Some u" "u \<noteq> []"
    by (auto simp: create_training_request_def split: option.splits if_splits)
  from assms u obtain t where t: "filter (\<lambda>t. td_id t = tid) (training_details db) = [t]"
    by (auto simp: create_training_request_def scalar_one_or_none_Some_iff
          split: option.splits sum.splits)
  from assms u t obtain m
    where m: "filter (\<lambda>m. me_employee_empid m = u) (manager_employees db) = [m]"
    by (auto simp: create_training_request_def scalar_one_or_none_Some_iff
          split: option.splits sum.splits)
  from assms u t m
  have e: "filter (\<lambda>r. training_id r = tid \<and> employee_empid r = u) (training_requests db) = []"
    by (auto simp: create_training_request_def scalar_one_or_none_Nil_iff
          split: option.splits sum.splits)
  let ?new = "\<lparr>req_id = next_id db, training_id = tid, employee_empid = u,
            manager_empid = me_manager_empid m, request_date = now,
            status = ''pending'', manager_notes = None, response_date = None\<rparr>"
  from assms u t m e have i: "insert_training_request db ?new = Inr db'"
    by (auto simp: create_training_request_def Let_def split: sum.splits)
  from insert_training_request_Inr(1,2)[OF i]
  have f: "filter (\<lambda>r. req_id r = next_id db) (training_requests db') = [?new]"
    using filter_new_id[of ?new "training_requests db"] by simp
  from assms u t m e i f have c: "created = selectinload db' ?new"
    by (auto simp: create_training_request_def Let_def)
  from u t m e i c show thesis by (rule that)
qed

text \<open>
  C7. Every successful \<^verbatim>\<open>create_training_request\<close> appends one row to
  \<^verbatim>\<open>training_requests\<close>, the row it returns; the status of that row is \<^verbatim>\<open>'pending'\<close> and
  its \<^verbatim>\<open>manager_empid\<close> is that of the one \<^verbatim>\<open>ManagerEmployee\<close> row which the directory
  holds for the caller in the state the call started from.
\<close>

theorem create_success_pending_manager:
  assumes "create_training_request db current_user tid now = (Inr created, db')"
  shows "\<exists>u m. current_user = Some u
           \<and> filter (\<lambda>m. me_employee_empid m = u) (manager_employees db) = [m]
           \<and> training_requests db' = training_requests db @ [columns created]
           \<and> employee_empid (columns created) = u
           \<and> status (columns created) = ''pending''
           \<and> manager_empid (columns created) = me_manager_empid m"
proof -
  from assms obtain u t m where u: "current_user = Some u"
    and m: "filter (\<lambda>m. me_employee_empid m = u) (manager_employees db) = [m]"
    and i: "insert_training_request db
           \<lparr>req_id = next_id db, training_id = tid, employee_empid = u,
            manager_empid = me_manager_empid m, request_date = now,
            status = ''pending'', manager_notes = None, response_date = None\<rparr> = Inr db'"
    and c: "created = selectinload db'
           \<lparr>req_id = next_id db, training_id = tid, employee_empid = u,
            manager_empid = me_manager_empid m, request_date = now,
            status = ''pending'', manager_notes = None, response_date = None\<rparr>"
    by (rule create_success)
  from insert_training_request_Inr(1)[OF i] c
  have "training_requests db' = training_requests db @ [columns created]"
    by (simp add: selectinload_def)
  moreover from c have "status (columns created) = ''pending''"
    and "manager_empid (columns created) = me_manager_empid m"
    and "employee_empid (columns created) = u"
    by (simp_all add: selectinload_def)
  ultimately show ?thesis using u m by blast
qed

theorem create_success_pending_manager_witness:
  "create_training_request scenario_empty (Some ''e1'') 5 100 =
     (Inr (selectinload scenario_pending request_e1), scenario_pending)
   \<and> training_requests scenario_pending = training_requests scenario_empty @ [request_e1]
   \<and> status request_e1 = ''pending''
   \<and> manager_empid request_e1 = ''m1''"
proof -
  have run: "create_training_request scenario_empty (Some ''e1'') 5 100 =
               (Inr (selectinload scenario_pending request_e1), scenario_pending)"
    by (simp add: create_training_request_def insert_training_request_def selectinload_def
          scenario_pending_def scenario_empty_def request_e1_def Let_def)
  from create_success_pending_manager [OF run] run show ?thesis
    by (auto simp: selectinload_def scenario_empty_def)
qed

text \<open>
  C8. A \<^verbatim>\<open>create_training_request\<close> call by an authenticated caller for a
  \<^verbatim>\<open>training_id\<close> that no \<^verbatim>\<open>TrainingDetail\<close> row has raises the 404 ``Training not
  found'' (the \<open>NotFound("training")\<close> of the taxonomy) and leaves the database as it
  was. The state is arbitrary: whatever the directory holds for the caller and whatever
  requests are stored, this is the error, so the check comes before the manager lookup
  and the duplicate check.
\<close>

theorem create_unknown_training:
  assumes "current_user = Some u" and "u \<noteq> []"
    and "\<forall>t\<in>set (training_details db). td_id t \<noteq> tid"
  shows "create_training_request db current_user tid now =
           (Inl (HTTPException HTTP_404_NOT_FOUND ''Training not found''), db)"
proof -
  from assms(3) have "filter (\<lambda>t. td_id t = tid) (training_details db) = []"
    by (simp add: filter_empty_conv)
  with assms(1,2) show ?thesis by (simp add: create_training_request_def)
qed

theorem create_unknown_training_witness:
  "create_training_request scenario_left (Some ''e1'') 6 300 =
     (Inl (HTTPException HTTP_404_NOT_FOUND ''Training not found''), scenario_left)"
  using create_unknown_training [of "Some ''e1''" "''e1''" scenario_left 6 300]
  by (simp add: scenario_left_def scenario_pending_def scenario_empty_def)

lemma create_existing_fails:
  assumes "r \<in> set (training_requests db)" and "training_id r = T" and "employee_empid r = E"
  shows "\<exists>e. create_training_request db (Some E) T now = (Inl e, db)"
proof -
  from assms
  have "filter (\<lambda>x. training_id x = T \<and> employee_empid x = E) (training_requests db) \<noteq> []"
    by (auto simp: filter_empty_conv)
  then have "scalar_one_or_none
               (filter (\<lambda>x. training_id x = T \<and> employee_empid x = E) (training_requests db))
             \<noteq> Inr None"
    by (simp add: scalar_one_or_none_Nil_iff)
  then show ?thesis
    by (auto simp: create_training_request_def split: option.splits sum.splits)
qed

lemma create_conflict:
  assumes "E \<noteq> []"
    and "filter (\<lambda>t. td_id t = T) (training_details db) = [t]"
    and "filter (\<lambda>m. me_employee_empid m = E) (manager_employees db) = [m]"
    and "filter (\<lambda>x. training_id x = T \<and> employee_empid x = E) (training_requests db) = [r]"
  shows "create_training_request db (Some E) T now =
           (Inl (HTTPException HTTP_400_BAD_REQUEST ''You have already requested this training''),
            db)"
  using assms by (simp add: create_training_request_def)

lemma create_again_conflict:
  assumes "create_training_request db (Some E) T now = (Inr created, db1)"
  shows "filter (\<lambda>x. training_id x = T \<and> employee_empid x = E) (training_requests db1)
           = [columns created]"
    and "create_training_request db1 (Some E) T now' =
           (Inl (HTTPException HTTP_400_BAD_REQUEST ''You have already requested this training''),
            db1)"
proof -
  from assms obtain u t m where u: "Some E = Some u" "u \<noteq> []"
    and t: "filter (\<lambda>t. td_id t = T) (training_details db) = [t]"
    and m: "filter (\<lambda>m. me_employee_empid m = u) (manager_employees db) = [m]"
    and e: "filter (\<lambda>r. training_id r = T \<and> employee_empid r = u) (training_requests db) = []"
    and i: "insert_training_request db
           \<lparr>req_id = next_id db, training_id = T, employee_empid = u,
            manager_empid = me_manager_empid m, request_date = now,
            status = ''pending'', manager_notes = None, response_date = None\<rparr> = Inr db1"
    and c: "created = selectinload db1
           \<lparr>req_id = next_id db, training_id = T, employee_empid = u,
            manager_empid = me_manager_empid m, request_date = now,
            status = ''pending'', manager_notes = None, response_date = None\<rparr>"
    by (rule create_success)
  from u have [simp]: "u = E" by simp
  note db1 = insert_training_request_Inr(1)[OF i]
  from db1 e c
  show f: "filter (\<lambda>x. training_id x = T \<and> employee_empid x = E) (training_requests db1)
           = [columns created]"
    by (simp add: selectinload_def)
  from db1 t have t1: "filter (\<lambda>t. td_id t = T) (training_details db1) = [t]" by simp
  from db1 m have m1: "filter (\<lambda>m. me_employee_empid m = E) (manager_employees db1) = [m]"
    by simp
  from u(2) t1 m1 f show "create_training_request db1 (Some E) T now' =
           (Inl (HTTPException HTTP_400_BAD_REQUEST ''You have already requested this training''),
            db1)"
    by (intro create_conflict) simp_all
qed

text \<open>
  C3, as amended. When a request for \<open>(T, E)\<close> is stored, whatever its status, a
  \<^verbatim>\<open>create_training_request\<close> call by \<open>E\<close> for \<open>T\<close> fails and leaves the database as
  it was. The error is the 400 ``You have already requested this training'' (the
  \<open>Conflict\<close> of the taxonomy) when the checks before the duplicate check pass and the
  stored request is the only one for \<open>(T, E)\<close>: the caller is authenticated, one
  \<^verbatim>\<open>TrainingDetail\<close> has the id \<open>T\<close>, and the directory has one row for \<open>E\<close>. So
  after a successful call, exactly one request for \<open>(T, E)\<close> is stored, and a second
  call with the same \<open>(E, T)\<close> returns that error and stores nothing.
\<close>

theorem create_duplicate_request:
  "(\<forall>r\<in>set (training_requests db). training_id r = T \<and> employee_empid r = E \<longrightarrow>
      (\<exists>e. create_training_request db (Some E) T now = (Inl e, db))
      \<and> (E \<noteq> []
           \<and> (\<exists>t. filter (\<lambda>t. td_id t = T) (training_details db) = [t])
           \<and> (\<exists>m. filter (\<lambda>m. me_employee_empid m = E) (manager_employees db) = [m])
           \<and> filter (\<lambda>x. training_id x = T \<and> employee_empid x = E) (training_requests db) = [r]
         \<longrightarrow> create_training_request db (Some E) T now =
               (Inl (HTTPException HTTP_400_BAD_REQUEST
                       ''You have already requested this training''), db)))
   \<and> (\<forall>created db1. create_training_request db (Some E) T now = (Inr created, db1) \<longrightarrow>
          filter (\<lambda>x. training_id x = T \<and> employee_empid x = E) (training_requests db1)
            = [columns created]
          \<and> create_training_request db1 (Some E) T now' =
               (Inl (HTTPException HTTP_400_BAD_REQUEST
                       ''You have already requested this training''), db1))"
proof (intro conjI ballI impI allI)
  fix r
  assume "r \<in> set (training_requests db)" and "training_id r = T \<and> employee_empid r = E"
  then show "\<exists>e. create_training_request db (Some E) T now = (Inl e, db)"
    using create_existing_fails by blast
next
  fix r
  assume "E \<noteq> []
           \<and> (\<exists>t. filter (\<lambda>t. td_id t = T) (training_details db) = [t])
           \<and> (\<exists>m. filter (\<lambda>m. me_employee_empid m = E) (manager_employees db) = [m])
           \<and> filter (\<lambda>x. training_id x = T \<and> employee_empid x = E) (training_requests db) = [r]"
  then show "create_training_request db (Some E) T now =
               (Inl (HTTPException HTTP_400_BAD_REQUEST
                       ''You have already requested this training''), db)"
    using create_conflict by blast
next
  fix created db1
  assume "create_training_request db (Some E) T now = (Inr created, db1)"
  then show "filter (\<lambda>x. training_id x = T \<and> employee_empid x = E) (training_requests db1)
            = [columns created]"
    and "create_training_request db1 (Some E) T now' =
               (Inl (HTTPException HTTP_400_BAD_REQUEST
                       ''You have already requested this training''), db1)"
    by (rule create_again_conflict)+
qed

theorem create_duplicate_request_witness:
  "create_training_request scenario_empty (Some ''e1'') 5 100 =
     (Inr (selectinload scenario_pending request_e1), scenario_pending)
   \<and> training_requests scenario_pending = [request_e1]
   \<and> create_training_request scenario_pending (Some ''e1'') 5 400 =
       (Inl (HTTPException HTTP_400_BAD_REQUEST ''You have already requested this training''),
        scenario_pending)"
proof -
  have run: "create_training_request scenario_empty (Some ''e1'') 5 100 =
               (Inr (selectinload scenario_pending request_e1), scenario_pending)"
    by (simp add: create_training_request_def insert_training_request_def selectinload_def
          scenario_defs Let_def)
  have stored: "request_e1 \<in> set (training_requests scenario_pending)"
    by (simp add: scenario_defs)
  have key: "training_id request_e1 = 5 \<and> employee_empid request_e1 = ''e1''"
    by (simp add: scenario_defs)
  have lookups: "''e1'' \<noteq> []
      \<and> (\<exists>t. filter (\<lambda>t. td_id t = 5) (training_details scenario_pending) = [t])
      \<and> (\<exists>m. filter (\<lambda>m. me_employee_empid m = ''e1'') (manager_employees scenario_pending) = [m])
      \<and> filter (\<lambda>x. training_id x = 5 \<and> employee_empid x = ''e1'')
           (training_requests scenario_pending) = [request_e1]"
    by (simp add: scenario_defs)
  note inst = create_duplicate_request [of scenario_pending 5 "''e1''" 400 400]
  from inst stored key lookups
  have "create_training_request scenario_pending (Some ''e1'') 5 400 =
       (Inl (HTTPException HTTP_400_BAD_REQUEST ''You have already requested this training''),
        scenario_pending)"
    by blast
  moreover have "training_requests scenario_pending = [request_e1]"
    by (simp add: scenario_defs)
  ultimately show ?thesis using run by simp
qed

text \<open>
  C3 as stated fails: in \<open>scenario_left\<close> the request of \<open>e1\<close> for training 5 is
  stored and the directory row of \<open>e1\<close> is gone; the manager lookup comes first, and
  the call fails with the 404 ``No manager found for this employee''.
\<close>

theorem create_existing_no_manager:
  "request_e1 \<in> set (training_requests scenario_left)
   \<and> training_id request_e1 = 5 \<and> employee_empid request_e1 = ''e1''
   \<and> create_training_request scenario_left (Some ''e1'') 5 400 =
       (Inl (HTTPException HTTP_404_NOT_FOUND ''No manager found for this employee''),
        scenario_left)"
  by (simp add: create_training_request_def scenario_defs)

section \<open>Listing requests\<close>

lemma columns_selectinload: "columns (selectinload db r) = r"
  by (simp add: selectinload_def)

text \<open>
  C9. For an authenticated employee \<open>E\<close>, \<^verbatim>\<open>get_my_training_requests\<close> returns the rows
  of \<^verbatim>\<open>training_requests\<close> whose \<^verbatim>\<open>employee_empid\<close> is \<open>E\<close>, each exactly as often
  as the table holds it and no other row, in descending order of \<^verbatim>\<open>request_date\<close>.
\<close>

theorem my_requests_filtered_sorted:
  assumes "current_user = Some E" and "E \<noteq> []"
  shows "\<exists>rs. get_my_training_requests db current_user = Inr rs
           \<and> mset (map columns rs) =
               mset (filter (\<lambda>r. employee_empid r = E) (training_requests db))
           \<and> sorted_wrt (\<lambda>a b. request_date b \<le> request_date a) (map columns rs)"
proof -
  let ?rows = "order_by_desc request_date
                 (filter (\<lambda>r. employee_empid r = E) (training_requests db))"
  have c: "map columns (map (selectinload db) ?rows) = ?rows"
    by (simp add: comp_def columns_selectinload)
  from assms have "get_my_training_requests db current_user = Inr (map (selectinload db) ?rows)"
    by (simp add: get_my_training_requests_def)
  moreover have "mset (map columns (map (selectinload db) ?rows)) =
                   mset (filter (\<lambda>r. employee_empid r = E) (training_requests db))"
    unfolding c by (rule mset_order_by_desc)
  moreover have "sorted_wrt (\<lambda>a b. request_date b \<le> request_date a)
                   (map columns (map (selectinload db) ?rows))"
    unfolding c by (rule sorted_order_by_desc)
  ultimately show ?thesis by blast
qed

theorem my_requests_filtered_sorted_witness:
  "get_my_training_requests scenario_listing (Some ''e1'') =
     Inr [selectinload scenario_listing request_e1_later, selectinload scenario_listing request_e1]"
  using my_requests_filtered_sorted [of "Some ''e1''" "''e1''" scenario_listing]
  by (simp add: get_my_training_requests_def order_by_desc_def scenario_defs)

lemma concat_map_if:
  "concat (map (\<lambda>m. if c m then [g m] else []) ms) = map g (filter c ms)"
  by (induction ms) simp_all

lemma join_manager_employee_eq:
  "join_manager_employee db =
     concat (map (\<lambda>r. map (\<lambda>m. (r, employee_name m))
                         (filter (\<lambda>m. employee_empid r = me_employee_empid m)
                                 (manager_employees db)))
                 (training_requests db))"
  by (simp add: join_manager_employee_def concat_map_if)

lemma join_manager_employee_member:
  "(r, n) \<in> set (join_manager_employee db) \<longleftrightarrow>
     r \<in> set (training_requests db)
     \<and> (\<exists>m\<in>set (manager_employees db). employee_empid r = me_employee_empid m
                                          \<and> n = employee_name m)"
  by (auto simp: join_manager_employee_def)

lemma request_dict_selectinload:
  assumes "employee_empid r \<in> username ` set (users db)"
  shows "\<exists>resp. request_dict (selectinload db r) n = Inr resp
           \<and> response_columns resp = r
           \<and> dict_name (resp_employee resp) = n
           \<and> dict_username (resp_employee resp) = employee_empid r
           \<and> resp_training resp = find (\<lambda>t. td_id t = training_id r) (training_details db)"
proof -
  from assms have "find (\<lambda>u. username u = employee_empid r) (users db) \<noteq> None"
    by (auto simp: find_None_iff)
  then obtain u where u: "find (\<lambda>u. username u = employee_empid r) (users db) = Some u"
    by blast
  then have "username u = employee_empid r" by (auto simp: find_Some_iff)
  with u show ?thesis
    by (simp add: request_dict_def selectinload_def response_columns_def)
qed

lemma to_responses_ok:
  assumes "\<forall>row\<in>set rows. employee_empid (fst row) \<in> username ` set (users db)"
  shows "\<exists>resps. to_responses db rows = Inr resps
           \<and> list_all2 (\<lambda>resp row. response_columns resp = fst row
                                    \<and> dict_name (resp_employee resp) = snd row
                                    \<and> dict_username (resp_employee resp) = employee_empid (fst row))
                        resps rows"
  using assms
proof (induction rows)
  case Nil
  then show ?case by simp
next
  case (Cons row rows)
  from Cons.prems have "employee_empid (fst row) \<in> username ` set (users db)" by simp
  from request_dict_selectinload[OF this, of "snd row"]
  obtain resp where resp: "request_dict (selectinload db (fst row)) (snd row) = Inr resp"
    "response_columns resp = fst row" "dict_name (resp_employee resp) = snd row"
    "dict_username (resp_employee resp) = employee_empid (fst row)"
    by blast
  from Cons obtain resps where resps: "to_responses db rows = Inr resps"
    "list_all2 (\<lambda>resp row. response_columns resp = fst row
                                    \<and> dict_name (resp_employee resp) = snd row
                                    \<and> dict_username (resp_employee resp) = employee_empid (fst row))
                        resps rows"
    by auto
  from resp resps show ?case by simp
qed

text \<open>With exactly one directory row per listed employee, the join keeps each request once.\<close>

lemma join_unique_rows:
  assumes "\<forall>r\<in>set rs. P r \<longrightarrow> (\<exists>m. filter (\<lambda>m. employee_empid r = me_employee_empid m) ms = [m])"
  shows "map fst (filter (\<lambda>row. P (fst row))
            (concat (map (\<lambda>r. map (\<lambda>m. (r, employee_name m))
                                 (filter (\<lambda>m. employee_empid r = me_employee_empid m) ms)) rs)))
         = filter P rs"
  using assms
proof (induction rs)
  case Nil
  then show ?case by simp
next
  case (Cons r rs)
  let ?F = "\<lambda>r. map (\<lambda>m. (r, employee_name m))
                   (filter (\<lambda>m. employee_empid r = me_employee_empid m) ms)"
  have head: "map fst (filter (\<lambda>row. P (fst row)) (?F r)) = (if P r then [r] else [])"
  proof (cases "P r")
    case True
    with Cons.prems obtain m
      where "filter (\<lambda>m. employee_empid r = me_employee_empid m) ms = [m]" by auto
    with True show ?thesis by simp
  next
    case False
    then show ?thesis by (simp add: filter_map comp_def)
  qed
  from Cons have "map fst (filter (\<lambda>row. P (fst row)) (concat (map ?F rs))) = filter P rs"
    by simp
  with head show ?case by simp
qed

lemma pending_rows_requests:
  assumes "\<forall>r\<in>set (training_requests db). manager_empid r = M \<and> status r = ''pending'' \<longrightarrow>
             (\<exists>m. filter (\<lambda>m. employee_empid r = me_employee_empid m) (manager_employees db) = [m])"
  shows "mset (map fst (pending_rows db M)) =
           mset (filter (\<lambda>r. manager_empid r = M \<and> status r = ''pending'') (training_requests db))"
proof -
  have "mset (map fst (pending_rows db M)) =
          mset (map fst (filter (\<lambda>row. manager_empid (fst row) = M \<and> status (fst row) = ''pending'')
                                (join_manager_employee db)))"
    by (simp add: pending_rows_def mset_order_by_desc)
  also have "map fst (filter (\<lambda>row. manager_empid (fst row) = M \<and> status (fst row) = ''pending'')
                             (join_manager_employee db)) =
             filter (\<lambda>r. manager_empid r = M \<and> status r = ''pending'') (training_requests db)"
    unfolding join_manager_employee_eq
    by (rule join_unique_rows[where P = "\<lambda>r. manager_empid r = M \<and> status r = ''pending''"])
       (use assms in blast)
  finally show ?thesis .
qed

lemma pending_rows_member:
  assumes "row \<in> set (pending_rows db M)"
  shows "fst row \<in> set (training_requests db)"
    and "manager_empid (fst row) = M" and "status (fst row) = ''pending''"
    and "\<exists>m\<in>set (manager_employees db). employee_empid (fst row) = me_employee_empid m
                                         \<and> snd row = employee_name m"
  using assms join_manager_employee_member[of "fst row" "snd row" db]
  by (auto simp: pending_rows_def set_order_by_desc)

lemma sorted_pending_rows:
  "sorted_wrt (\<lambda>a b. request_date b \<le> request_date a) (map fst (pending_rows db M))"
  unfolding pending_rows_def sorted_wrt_map by (rule sorted_order_by_desc)

lemma list_all2_left_member:
  "list_all2 P xs ys \<Longrightarrow> x \<in> set xs \<Longrightarrow> \<exists>y\<in>set ys. P x y"
  by (induction rule: list_all2_induct) auto

lemma list_all2_map_eq:
  "list_all2 (\<lambda>x y. f x = g y) xs ys \<Longrightarrow> map f xs = map g ys"
  by (induction rule: list_all2_induct) simp_all

lemma list_all2_pair_eq:
  "list_all2 (\<lambda>x y. f x = fst y \<and> g x = snd y) xs ys \<Longrightarrow> map (\<lambda>x. (f x, g x)) xs = ys"
  by (induction rule: list_all2_induct) auto

text \<open>
  What \<^verbatim>\<open>get_pending_requests\<close> returns to an authenticated manager \<open>M\<close>, when the
  foreign key of \<^verbatim>\<open>employee_empid\<close> into \<^verbatim>\<open>users\<close> holds: one result for every row of
  the inner join whose request has \<^verbatim>\<open>manager_empid == M\<close> and
  \<^verbatim>\<open>status == 'pending'\<close>, carrying that request and the \<^verbatim>\<open>employee_name\<close> of that
  directory row, in descending order of \<^verbatim>\<open>request_date\<close>. A request with two
  directory rows is listed twice, as in \<open>scenario_moved\<close>; one with none is not listed.
\<close>

lemma pending_requests_pairs:
  assumes "current_user = Some M" and "M \<noteq> []"
    and users: "\<forall>r\<in>set (training_requests db). employee_empid r \<in> username ` set (users db)"
  shows "\<exists>resps. get_pending_requests db current_user = Inr resps
           \<and> mset (map (\<lambda>resp. (response_columns resp, dict_name (resp_employee resp))) resps) =
               mset (filter (\<lambda>row. manager_empid (fst row) = M \<and> status (fst row) = ''pending'')
                            (join_manager_employee db))
           \<and> sorted_wrt (\<lambda>a b. request_date b \<le> request_date a) (map response_columns resps)"
proof -
  let ?rows = "pending_rows db M"
  have "\<forall>row\<in>set ?rows. employee_empid (fst row) \<in> username ` set (users db)"
    using users pending_rows_member(1) by blast
  from to_responses_ok[OF this]
  obtain resps where run: "to_responses db ?rows = Inr resps"
    and rel: "list_all2 (\<lambda>resp row. response_columns resp = fst row
                       \<and> dict_name (resp_employee resp) = snd row
                       \<and> dict_username (resp_employee resp) = employee_empid (fst row))
                resps ?rows"
    by blast
  from rel have "list_all2 (\<lambda>resp row. response_columns resp = fst row
                       \<and> dict_name (resp_employee resp) = snd row) resps ?rows"
    by (rule list_all2_mono) simp
  then have pairs: "map (\<lambda>resp. (response_columns resp, dict_name (resp_employee resp))) resps
                      = ?rows"
    by (rule list_all2_pair_eq)
  then have "map fst (map (\<lambda>resp. (response_columns resp, dict_name (resp_employee resp))) resps)
               = map fst ?rows"
    by simp
  then have cols: "map response_columns resps = map fst ?rows"
    by (simp add: comp_def)
  from assms(1,2) run have "get_pending_requests db current_user = Inr resps"
    by (simp add: get_pending_requests_def)
  moreover from pairs
  have "mset (map (\<lambda>resp. (response_columns resp, dict_name (resp_employee resp))) resps) =
               mset (filter (\<lambda>row. manager_empid (fst row) = M \<and> status (fst row) = ''pending'')
                            (join_manager_employee db))"
    by (simp add: pending_rows_def mset_order_by_desc)
  moreover from cols sorted_pending_rows
  have "sorted_wrt (\<lambda>a b. request_date b \<le> request_date a) (map response_columns resps)"
    by simp
  ultimately show ?thesis by blast
qed

lemma pending_requests_pairs_moved:
  "\<exists>resps. get_pending_requests scenario_moved (Some ''m1'') = Inr resps
      \<and> map (\<lambda>resp. (response_columns resp, dict_name (resp_employee resp))) resps =
          [(request_e1, ''Ann''), (request_e1, ''Ann B'')]"
  by (simp add: get_pending_requests_def pending_rows_def join_manager_employee_def
        order_by_desc_def request_dict_def selectinload_def response_columns_def scenario_defs)

text \<open>
  When every pending request of manager \<open>M\<close> has exactly one directory row for its
  employee, the join keeps each of them once: the call then returns all and only the rows
  with \<^verbatim>\<open>manager_empid == M\<close> and \<^verbatim>\<open>status == 'pending'\<close>, in descending order of
  \<^verbatim>\<open>request_date\<close>, each with the \<^verbatim>\<open>employee_name\<close> of a directory row of its employee.
\<close>

lemma pending_requests_unique_directory:
  assumes "current_user = Some M" and "M \<noteq> []"
    and users: "\<forall>r\<in>set (training_requests db). employee_empid r \<in> username ` set (users db)"
    and directory:
      "\<forall>r\<in>set (training_requests db). manager_empid r = M \<and> status r = ''pending'' \<longrightarrow>
         (\<exists>m. filter (\<lambda>m. employee_empid r = me_employee_empid m) (manager_employees db) = [m])"
  shows "\<exists>resps. get_pending_requests db current_user = Inr resps
           \<and> mset (map response_columns resps) =
               mset (filter (\<lambda>r. manager_empid r = M \<and> status r = ''pending'')
                            (training_requests db))
           \<and> sorted_wrt (\<lambda>a b. request_date b \<le> request_date a) (map response_columns resps)
           \<and> (\<forall>resp\<in>set resps. \<exists>m\<in>set (manager_employees db).
                  me_employee_empid m = resp_employee_empid resp
                  \<and> dict_name (resp_employee resp) = employee_name m)"
proof -
  let ?rows = "pending_rows db M"
  let ?R = "\<lambda>resp row. response_columns resp = fst row
                       \<and> dict_name (resp_employee resp) = snd row
                       \<and> dict_username (resp_employee resp) = employee_empid (fst row)"
  have "\<forall>row\<in>set ?rows. employee_empid (fst row) \<in> username ` set (users db)"
    using users pending_rows_member(1) by blast
  from to_responses_ok[OF this]
  obtain resps where run: "to_responses db ?rows = Inr resps" and rel: "list_all2 ?R resps ?rows"
    by blast
  from rel have "list_all2 (\<lambda>resp row. response_columns resp = fst row) resps ?rows"
    by (rule list_all2_mono) simp
  then have cols: "map response_columns resps = map fst ?rows"
    by (rule list_all2_map_eq)
  have names: "\<exists>m\<in>set (manager_employees db).
                  me_employee_empid m = resp_employee_empid resp
                  \<and> dict_name (resp_employee resp) = employee_name m"
    if "resp \<in> set resps" for resp
  proof -
    from list_all2_left_member[OF rel that] obtain row
      where row: "row \<in> set ?rows" "response_columns resp = fst row"
        "dict_name (resp_employee resp) = snd row"
      by blast
    have "employee_empid (response_columns resp) = resp_employee_empid resp"
      by (simp add: response_columns_def)
    with row(2) have "resp_employee_empid resp = employee_empid (fst row)"
      by simp
    with pending_rows_member(4)[OF row(1)] row(3) show ?thesis by auto
  qed
  from assms(1,2) run have "get_pending_requests db current_user = Inr resps"
    by (simp add: get_pending_requests_def)
  moreover from cols pending_rows_requests[OF directory]
  have "mset (map response_columns resps) =
               mset (filter (\<lambda>r. manager_empid r = M \<and> status r = ''pending'')
                            (training_requests db))"
    by simp
  moreover from cols sorted_pending_rows
  have "sorted_wrt (\<lambda>a b. request_date b \<le> request_date a) (map response_columns resps)"
    by simp
  ultimately show ?thesis using names by blast
qed

lemma pending_requests_listing:
  "\<exists>resps. get_pending_requests scenario_listing (Some ''m1'') = Inr resps
      \<and> map response_columns resps = [request_e2, request_e1]
      \<and> map (\<lambda>resp. dict_name (resp_employee resp)) resps = [''Bob'', ''Ann'']"
proof -
  have u: "\<forall>r\<in>set (training_requests scenario_listing).
             employee_empid r \<in> username ` set (users scenario_listing)"
    by (simp add: scenario_defs)
  have d: "\<forall>r\<in>set (training_requests scenario_listing).
             manager_empid r = ''m1'' \<and> status r = ''pending'' \<longrightarrow>
             (\<exists>m. filter (\<lambda>m. employee_empid r = me_employee_empid m)
                          (manager_employees scenario_listing) = [m])"
    by (simp add: scenario_defs)
  from pending_requests_unique_directory [OF refl _ u d]
  obtain resps where "get_pending_requests scenario_listing (Some ''m1'') = Inr resps"
    by auto
  then show ?thesis
    by (auto simp: get_pending_requests_def pending_rows_def join_manager_employee_def
          order_by_desc_def request_dict_def selectinload_def response_columns_def scenario_defs)
qed

text \<open>
  C6. \<^verbatim>\<open>get_pending_requests\<close> is documented as ``Get all pending training requests for
  the current manager to review'', and it selects them through an inner join with
  \<^verbatim>\<open>ManagerEmployee\<close>: a pending request whose employee has no directory row is left
  out. In \<open>scenario_left\<close> the request of \<open>e1\<close> is stored with status \<^verbatim>\<open>'pending'\<close>
  and \<open>m1\<close> as its manager, the directory row of \<open>e1\<close> has been removed, and the list
  that \<open>m1\<close> gets is empty.
\<close>

theorem pending_requests_dropped:
  "request_e1 \<in> set (training_requests scenario_left)
   \<and> manager_empid request_e1 = ''m1'' \<and> status request_e1 = ''pending''
   \<and> get_pending_requests scenario_left (Some ''m1'') = Inr []"
  by (simp add: get_pending_requests_def pending_rows_def join_manager_employee_def
        order_by_desc_def scenario_defs)

section \<open>Responding to a request\<close>

lemma filter_single_member:
  assumes "filter P xs = [x]"
  shows "P x \<and> x \<in> set xs"
proof -
  from assms have "x \<in> set (filter P xs)" by simp
  then show ?thesis by simp
qed

lemma filter_single_only:
  assumes "filter P xs = [x]" and "y \<in> set xs" and "P y"
  shows "y = x"
proof -
  from assms(2,3) have "y \<in> set (filter P xs)" by simp
  with assms(1) show ?thesis by simp
qed

text \<open>The state that the commit of a response leaves.\<close>

lemma respond_commits:
  assumes "current_user = Some u" and "u \<noteq> []"
    and "filter (\<lambda>x. req_id x = rid) (training_requests db) = [r]"
    and "manager_empid r = u" and "status r = ''pending''"
  shows "snd (respond_to_request db rid response_data current_user now) =
           (if upd_status response_data = ''approved''
            then add_assignment
                   (update_training_request db rid (upd_status response_data)
                      (upd_manager_notes response_data) now)
                   \<lparr>ta_training_id = training_id r, ta_employee_empid = employee_empid r,
                    ta_manager_empid = manager_empid r\<rparr>
            else update_training_request db rid (upd_status response_data)
                   (upd_manager_notes response_data) now)"
proof -
  from assms(3) have "req_id r = rid" using filter_single_member by fastforce
  with assms show ?thesis
    by (simp add: respond_to_request_def Let_def split: option.splits sum.splits)
qed

lemma update_only_row:
  assumes "filter (\<lambda>x. req_id x = rid) rs = [r]"
  shows "map (\<lambda>x. if req_id x = rid then x\<lparr>status := st, manager_notes := mnotes,
                                          response_date := Some now\<rparr> else x) rs =
         map (\<lambda>x. if x = r then r\<lparr>status := st, manager_notes := mnotes,
                                    response_date := Some now\<rparr> else x) rs"
proof (rule map_cong[OF refl])
  fix x assume x: "x \<in> set rs"
  from assms have r: "req_id r = rid" using filter_single_member by fastforce
  show "(if req_id x = rid then x\<lparr>status := st, manager_notes := mnotes,
                                   response_date := Some now\<rparr> else x) =
        (if x = r then r\<lparr>status := st, manager_notes := mnotes,
                           response_date := Some now\<rparr> else x)"
  proof (cases "req_id x = rid")
    case True
    with assms x have "x = r" by (rule_tac filter_single_only)
    with True show ?thesis by simp
  next
    case False
    with r have "x \<noteq> r" by auto
    with False show ?thesis by simp
  qed
qed

lemma respond_effect:
  assumes "r \<in> set (training_requests db)" and "distinct (map req_id (training_requests db))"
    and "status r = ''pending''" and "manager_empid r \<noteq> []"
  shows "training_requests
           (snd (respond_to_request db (req_id r) \<lparr>upd_status = st, upd_manager_notes = mnotes\<rparr>
                   (Some (manager_empid r)) now)) =
         map (\<lambda>x. if x = r then r\<lparr>status := st, manager_notes := mnotes,
                                    response_date := Some now\<rparr> else x) (training_requests db)"
    and "training_assignments
           (snd (respond_to_request db (req_id r) \<lparr>upd_status = st, upd_manager_notes = mnotes\<rparr>
                   (Some (manager_empid r)) now)) =
         (if st = ''approved''
          then training_assignments db @
                 [\<lparr>ta_training_id = training_id r, ta_employee_empid = employee_empid r,
                   ta_manager_empid = manager_empid r\<rparr>]
          else training_assignments db)"
proof -
  from assms(1,2)
  have f: "filter (\<lambda>x. req_id x = req_id r) (training_requests db) = [r]"
    by (simp add: filter_key_single)
  note c = respond_commits[OF refl assms(4) f refl assms(3), of "\<lparr>upd_status = st, upd_manager_notes = mnotes\<rparr>" now]
  from c have "training_requests
           (snd (respond_to_request db (req_id r) \<lparr>upd_status = st, upd_manager_notes = mnotes\<rparr>
                   (Some (manager_empid r)) now)) =
         map (\<lambda>x. if req_id x = req_id r
                   then x\<lparr>status := st, manager_notes := mnotes, response_date := Some now\<rparr>
                   else x) (training_requests db)"
    by (simp add: update_training_request_def add_assignment_def)
  also note update_only_row[OF f]
  finally show "training_requests
           (snd (respond_to_request db (req_id r) \<lparr>upd_status = st, upd_manager_notes = mnotes\<rparr>
                   (Some (manager_empid r)) now)) =
         map (\<lambda>x. if x = r then r\<lparr>status := st, manager_notes := mnotes,
                                    response_date := Some now\<rparr> else x) (training_requests db)" .
  from c show "training_assignments
           (snd (respond_to_request db (req_id r) \<lparr>upd_status = st, upd_manager_notes = mnotes\<rparr>
                   (Some (manager_empid r)) now)) =
         (if st = ''approved''
          then training_assignments db @
                 [\<lparr>ta_training_id = training_id r, ta_employee_empid = employee_empid r,
                   ta_manager_empid = manager_empid r\<rparr>]
          else training_assignments db)"
    by (simp add: update_training_request_def add_assignment_def)
qed

text \<open>
  C1. Let \<open>r\<close> be a stored request with status \<^verbatim>\<open>'pending'\<close>, in a table whose \<^verbatim>\<open>id\<close>
  column is a key, and let its manager (an authenticated caller, so a non-empty
  \<^verbatim>\<open>manager_empid\<close>) call \<^verbatim>\<open>respond_to_request\<close> for it. With status \<^verbatim>\<open>'approved'\<close> the
  call leaves \<open>r\<close> with status \<^verbatim>\<open>'approved'\<close>, the submitted notes and the current time
  as \<^verbatim>\<open>response_date\<close>, every other request as it was, and one more
  \<^verbatim>\<open>TrainingAssignment\<close>, whose \<^verbatim>\<open>training_id\<close>, \<^verbatim>\<open>employee_empid\<close> and
  \<^verbatim>\<open>manager_empid\<close> are those of \<open>r\<close>. With status \<^verbatim>\<open>'rejected'\<close> it updates the same
  three fields and leaves the assignments as they were.
\<close>

theorem respond_approved_rejected:
  assumes "r \<in> set (training_requests db)" and "distinct (map req_id (training_requests db))"
    and "status r = ''pending''" and "manager_empid r \<noteq> []"
  shows "(let db' = snd (respond_to_request db (req_id r)
                          \<lparr>upd_status = ''approved'', upd_manager_notes = mnotes\<rparr>
                          (Some (manager_empid r)) now)
          in training_requests db' =
               map (\<lambda>x. if x = r
                         then r\<lparr>status := ''approved'', manager_notes := mnotes,
                                response_date := Some now\<rparr>
                         else x) (training_requests db)
             \<and> training_assignments db' =
                 training_assignments db @
                   [\<lparr>ta_training_id = training_id r, ta_employee_empid = employee_empid r,
                     ta_manager_empid = manager_empid r\<rparr>])
       \<and> (let db' = snd (respond_to_request db (req_id r)
                          \<lparr>upd_status = ''rejected'', upd_manager_notes = mnotes\<rparr>
                          (Some (manager_empid r)) now)
          in training_requests db' =
               map (\<lambda>x. if x = r
                         then r\<lparr>status := ''rejected'', manager_notes := mnotes,
                                response_date := Some now\<rparr>
                         else x) (training_requests db)
             \<and> training_assignments db' = training_assignments db)"
  using respond_effect[OF assms, of "''approved''" mnotes now]
    respond_effect[OF assms, of "''rejected''" mnotes now]
  by (simp add: Let_def)

theorem respond_approved_rejected_witness:
  "snd (respond_to_request scenario_pending 1
          \<lparr>upd_status = ''approved'', upd_manager_notes = Some ''ok''\<rparr> (Some ''m1'') 200) =
     scenario_pending
       \<lparr>training_requests :=
          [request_e1\<lparr>status := ''approved'', manager_notes := Some ''ok'',
                      response_date := Some 200\<rparr>],
        training_assignments :=
          [\<lparr>ta_training_id = 5, ta_employee_empid = ''e1'', ta_manager_empid = ''m1''\<rparr>]\<rparr>
   \<and> snd (respond_to_request scenario_pending 1
          \<lparr>upd_status = ''rejected'', upd_manager_notes = None\<rparr> (Some ''m1'') 200) =
     scenario_pending
       \<lparr>training_requests :=
          [request_e1\<lparr>status := ''rejected'', manager_notes := None,
                      response_date := Some 200\<rparr>]\<rparr>"
proof -
  have 1: "request_e1 \<in> set (training_requests scenario_pending)"
    and 2: "distinct (map req_id (training_requests scenario_pending))"
    and 3: "status request_e1 = ''pending''" and 4: "manager_empid request_e1 \<noteq> []"
    by (simp_all add: scenario_defs)
  from respond_approved_rejected [OF 1 2 3 4, of "Some ''ok''" 200]
    respond_approved_rejected [OF 1 2 3 4, of None 200]
  show ?thesis
    by (simp add: respond_to_request_def update_training_request_def add_assignment_def
          join_manager_employee_def request_dict_def selectinload_def Let_def scenario_defs)
qed

text \<open>
  C10. \<^verbatim>\<open>respond_to_request\<close> does not check the submitted status. For every string
  \<open>s\<close>, a call by the manager of a pending request \<open>r\<close> stores \<open>s\<close> as the status of
  \<open>r\<close> as it is, and it adds a \<^verbatim>\<open>TrainingAssignment\<close> when \<open>s\<close> is the string
  \<^verbatim>\<open>'approved'\<close> and none for any other \<open>s\<close>.
\<close>

theorem respond_status_unchecked:
  assumes "r \<in> set (training_requests db)" and "distinct (map req_id (training_requests db))"
    and "status r = ''pending''" and "manager_empid r \<noteq> []"
  shows "(let db' = snd (respond_to_request db (req_id r)
                          \<lparr>upd_status = s, upd_manager_notes = mnotes\<rparr>
                          (Some (manager_empid r)) now)
          in training_requests db' =
               map (\<lambda>x. if x = r
                         then r\<lparr>status := s, manager_notes := mnotes,
                                response_date := Some now\<rparr>
                         else x) (training_requests db)
             \<and> (s = ''approved'' \<longrightarrow>
                   training_assignments db' =
                     training_assignments db @
                       [\<lparr>ta_training_id = training_id r, ta_employee_empid = employee_empid r,
                         ta_manager_empid = manager_empid r\<rparr>])
             \<and> (s \<noteq> ''approved'' \<longrightarrow> training_assignments db' = training_assignments db))"
  using respond_effect[OF assms, of s mnotes now] by (auto simp: Let_def)

theorem respond_status_unchecked_witness:
  "snd (respond_to_request scenario_pending 1
          \<lparr>upd_status = ''maybe'', upd_manager_notes = None\<rparr> (Some ''m1'') 200) =
     scenario_pending
       \<lparr>training_requests :=
          [request_e1\<lparr>status := ''maybe'', manager_notes := None,
                      response_date := Some 200\<rparr>]\<rparr>
   \<and> snd (respond_to_request scenario_pending 1
          \<lparr>upd_status = ''Approved'', upd_manager_notes = None\<rparr> (Some ''m1'') 200) =
     scenario_pending
       \<lparr>training_requests :=
          [request_e1\<lparr>status := ''Approved'', manager_notes := None,
                      response_date := Some 200\<rparr>]\<rparr>"
proof -
  have 1: "request_e1 \<in> set (training_requests scenario_pending)"
    and 2: "distinct (map req_id (training_requests scenario_pending))"
    and 3: "status request_e1 = ''pending''" and 4: "manager_empid request_e1 \<noteq> []"
    by (simp_all add: scenario_defs)
  from respond_status_unchecked [OF 1 2 3 4, of "''maybe''" None 200]
    respond_status_unchecked [OF 1 2 3 4, of "''Approved''" None 200]
  show ?thesis
    by (simp add: respond_to_request_def update_training_request_def add_assignment_def
          join_manager_employee_def request_dict_def selectinload_def Let_def scenario_defs)
qed














section \<open>The status of a request\<close>

lemma create_rows_cases:
  "training_requests (snd (create_training_request db current_user tid now)) =
     training_requests db
   \<or> (\<exists>r. status r = ''pending''
          \<and> training_requests (snd (create_training_request db current_user tid now)) =
              training_requests db @ [r])"
  by (auto simp: create_training_request_def insert_training_request_def Let_def
        split: option.splits sum.splits)

lemma create_rows:
  "\<exists>new. training_requests (snd (create_training_request db current_user tid now)) =
            training_requests db @ new
         \<and> (\<forall>r\<in>set new. status r = ''pending'')"
  using create_rows_cases[of db current_user tid now]
proof (elim disjE exE conjE)
  assume "training_requests (snd (create_training_request db current_user tid now)) =
            training_requests db"
  then have "training_requests (snd (create_training_request db current_user tid now)) =
               training_requests db @ [] \<and> (\<forall>r\<in>set []. status r = ''pending'')"
    by simp
  then show ?thesis by blast
next
  fix r
  assume "status r = ''pending''"
    and "training_requests (snd (create_training_request db current_user tid now)) =
           training_requests db @ [r]"
  then have "training_requests (snd (create_training_request db current_user tid now)) =
               training_requests db @ [r] \<and> (\<forall>x\<in>set [r]. status x = ''pending'')"
    by simp
  then show ?thesis by blast
qed

lemma respond_unchanged:
  assumes "\<not> (\<exists>u r. current_user = Some u \<and> u \<noteq> []
                \<and> filter (\<lambda>x. req_id x = rid) (training_requests db) = [r]
                \<and> manager_empid r = u \<and> status r = ''pending'')"
  shows "snd (respond_to_request db rid response_data current_user now) = db"
  using assms
  by (auto simp: respond_to_request_def scalar_one_or_none_Some_iff
        split: option.splits sum.splits)

lemma respond_rows:
  "training_requests (snd (respond_to_request db rid response_data current_user now)) =
     training_requests db
   \<or> (\<exists>r. filter (\<lambda>x. req_id x = rid) (training_requests db) = [r] \<and> status r = ''pending''
          \<and> training_requests (snd (respond_to_request db rid response_data current_user now)) =
              map (\<lambda>x. if x = r
                        then r\<lparr>status := upd_status response_data,
                               manager_notes := upd_manager_notes response_data,
                               response_date := Some now\<rparr>
                        else x) (training_requests db))"
proof (cases "\<exists>u r. current_user = Some u \<and> u \<noteq> []
                \<and> filter (\<lambda>x. req_id x = rid) (training_requests db) = [r]
                \<and> manager_empid r = u \<and> status r = ''pending''")
  case True
  then obtain u r where h: "current_user = Some u" "u \<noteq> []"
    "filter (\<lambda>x. req_id x = rid) (training_requests db) = [r]"
    "manager_empid r = u" "status r = ''pending''"
    by blast
  from respond_commits[OF h, of response_data now]
  have "training_requests (snd (respond_to_request db rid response_data current_user now)) =
          map (\<lambda>x. if req_id x = rid
                    then x\<lparr>status := upd_status response_data,
                           manager_notes := upd_manager_notes response_data,
                           response_date := Some now\<rparr>
                    else x) (training_requests db)"
    by (simp add: update_training_request_def add_assignment_def)
  also note update_only_row[OF h(3)]
  finally show ?thesis using h(3,5) by blast
next
  case False
  then show ?thesis by (simp add: respond_unchanged)
qed

lemma respond_keeps_responded:
  "list_all2 (\<lambda>old new. status old \<noteq> ''pending'' \<longrightarrow> new = old)
     (training_requests db)
     (training_requests (snd (respond_to_request db rid response_data current_user now)))"
  using respond_rows[of db rid response_data current_user now]
proof (elim disjE exE conjE)
  assume "training_requests (snd (respond_to_request db rid response_data current_user now)) =
            training_requests db"
  then show ?thesis by (simp add: list_all2_same)
next
  fix r
  assume r: "status r = ''pending''"
    and "training_requests (snd (respond_to_request db rid response_data current_user now)) =
              map (\<lambda>x. if x = r
                        then r\<lparr>status := upd_status response_data,
                               manager_notes := upd_manager_notes response_data,
                               response_date := Some now\<rparr>
                        else x) (training_requests db)"
  with r show ?thesis by (simp add: list_all2_map2 list_all2_same)
qed

lemma workflow_state_status:
  assumes "workflow_state db"
  shows "\<forall>r\<in>set (training_requests db).
           status r = ''pending'' \<or> status r = ''approved'' \<or> status r = ''rejected''"
  using assms
proof (induction rule: workflow_state.induct)
  case (initial db)
  then show ?case by simp
next
  case (created db current_user tid now)
  from create_rows[of db current_user tid now] created.IH show ?case by auto
next
  case (responded db response_data request_id current_user now)
  from respond_rows[of db request_id response_data current_user now] responded.IH
    responded.hyps(2)
  show ?case by auto
next
  case (external db tds us ms)
  then show ?case by simp
qed

text \<open>
  C4, as amended. \<^verbatim>\<open>respond_to_request\<close> stores the submitted status as it is, so: in
  every state that the workflow reaches by creating requests and by responses that
  submit \<^verbatim>\<open>'approved'\<close> or \<^verbatim>\<open>'rejected'\<close>, the status of every request is one of
  \<^verbatim>\<open>'pending'\<close>, \<^verbatim>\<open>'approved'\<close>, \<^verbatim>\<open>'rejected'\<close>. In any state, the rows that a
  \<^verbatim>\<open>create_training_request\<close> call adds to the table have status \<^verbatim>\<open>'pending'\<close> and the
  stored rows stay as they are; and a \<^verbatim>\<open>respond_to_request\<close> call, whatever it submits,
  leaves every row whose status is not \<^verbatim>\<open>'pending'\<close> as it is.
\<close>

theorem status_state_machine:
  "(workflow_state db \<longrightarrow>
      (\<forall>r\<in>set (training_requests db).
         status r = ''pending'' \<or> status r = ''approved'' \<or> status r = ''rejected''))
   \<and> (\<exists>new. training_requests (snd (create_training_request db current_user tid now)) =
              training_requests db @ new
            \<and> (\<forall>r\<in>set new. status r = ''pending''))
   \<and> list_all2 (\<lambda>old new. status old \<noteq> ''pending'' \<longrightarrow> new = old)
        (training_requests db)
        (training_requests (snd (respond_to_request db rid response_data responder now')))"
  using workflow_state_status create_rows respond_keeps_responded by blast

lemma workflow_state_scenario_pending: "workflow_state scenario_pending"
proof -
  have "training_requests scenario_empty = []" by (simp add: scenario_defs)
  then have "workflow_state scenario_empty" by (rule workflow_state.initial)
  then have "workflow_state (snd (create_training_request scenario_empty (Some ''e1'') 5 100))"
    by (rule workflow_state.created)
  moreover have "snd (create_training_request scenario_empty (Some ''e1'') 5 100) =
                   scenario_pending"
    by (simp add: create_training_request_def insert_training_request_def selectinload_def
          scenario_defs Let_def)
  ultimately show ?thesis by simp
qed

theorem status_state_machine_witness:
  "workflow_state (snd (respond_to_request scenario_pending 1
      \<lparr>upd_status = ''approved'', upd_manager_notes = Some ''ok''\<rparr> (Some ''m1'') 200))
   \<and> map status (training_requests (snd (respond_to_request scenario_pending 1
      \<lparr>upd_status = ''approved'', upd_manager_notes = Some ''ok''\<rparr> (Some ''m1'') 200))) =
     [''approved'']
   \<and> training_requests (snd (create_training_request scenario_empty (Some ''e1'') 5 100)) =
     training_requests scenario_empty @ [request_e1]
   \<and> training_requests (snd (respond_to_request scenario_listing 2
      \<lparr>upd_status = ''rejected'', upd_manager_notes = None\<rparr> (Some ''m1'') 400)) =
     training_requests scenario_listing"
proof -
  let ?db = "snd (respond_to_request scenario_pending 1
      \<lparr>upd_status = ''approved'', upd_manager_notes = Some ''ok''\<rparr> (Some ''m1'') 200)"
  have "upd_status \<lparr>upd_status = ''approved'', upd_manager_notes = Some ''ok''\<rparr> = ''approved''
        \<or> upd_status \<lparr>upd_status = ''approved'', upd_manager_notes = Some ''ok''\<rparr> = ''rejected''"
    by simp
  with workflow_state_scenario_pending have w: "workflow_state ?db"
    by (rule workflow_state.responded)
  have rows: "training_requests ?db =
                [request_e1\<lparr>status := ''approved'', manager_notes := Some ''ok'',
                            response_date := Some 200\<rparr>]"
    by (simp add: respond_to_request_def update_training_request_def add_assignment_def
          join_manager_employee_def request_dict_def selectinload_def Let_def scenario_defs)
  from status_state_machine [of ?db None 0 0 0 "\<lparr>upd_status = [], upd_manager_notes = None\<rparr>" None 0] w
  have "\<forall>r\<in>set (training_requests ?db).
          status r = ''pending'' \<or> status r = ''approved'' \<or> status r = ''rejected''"
    by blast
  with rows have "map status (training_requests ?db) = [''approved'']" by simp
  moreover have "training_requests (snd (create_training_request scenario_empty (Some ''e1'') 5 100)) =
     training_requests scenario_empty @ [request_e1]"
    by (simp add: create_training_request_def insert_training_request_def selectinload_def
          scenario_defs Let_def)
  moreover have "training_requests (snd (respond_to_request scenario_listing 2
      \<lparr>upd_status = ''rejected'', upd_manager_notes = None\<rparr> (Some ''m1'') 400)) =
     training_requests scenario_listing"
    by (simp add: respond_to_request_def scenario_defs)
  ultimately show ?thesis using w by simp
qed

text \<open>
  C4 as stated fails: \<open>scenario_pending\<close> is a state of the workflow, and after the
  response below the stored status of its request is \<^verbatim>\<open>'maybe'\<close>.
\<close>

theorem status_outside_the_three:
  "workflow_state scenario_pending
   \<and> map status (training_requests (snd (respond_to_request scenario_pending 1
        \<lparr>upd_status = ''maybe'', upd_manager_notes = None\<rparr> (Some ''m1'') 200))) = [''maybe'']
   \<and> ''maybe'' \<noteq> ''pending'' \<and> ''maybe'' \<noteq> ''approved'' \<and> ''maybe'' \<noteq> ''rejected''"
  using workflow_state_scenario_pending
  by (simp add: respond_to_request_def update_training_request_def add_assignment_def
        join_manager_employee_def request_dict_def selectinload_def Let_def scenario_defs)

end
